theory Spec2Isabelle
  imports Complex_Main "HOL-Library.Word"
begin

unbundle bit_operations_syntax

section \<open>The DOS mouse driver interface (mouseif\_dos\_driver.cpp)\<close>

text \<open>
  The driver keeps its data in file-scope variables: the hardware values
  (\<open>buttons\<close>, \<open>pos_x\<close>, \<open>pos_y\<close>, \<open>counter_w\<close>, the rate override), the
  \<open>pending\<close> input, the \<open>state\<close> structure and two flags of \<open>mouse_shared\<close>.
  They are collected in one record, every field under the name of the member it stands
  for (\<open>state.hidden\<close> is \<open>hidden\<close>, \<open>pending.w_rel\<close> is \<open>pending_w_rel\<close>,
  \<open>state.background.enabled\<close> is \<open>background_enabled\<close>).

  Unsigned registers and members (\<open>uint16_t\<close>, \<open>uint8_t\<close>) are words. Signed
  members (\<open>int16_t\<close>, \<open>int8_t\<close>) are integers holding the value of the member, and
  every conversion the source performs on them is written out (\<open>to_int16\<close>,
  \<open>to_uint16\<close>, \<open>signed_to_reg16\<close>, \<open>reg_to_signed16\<close>).

  \<open>pos_x\<close> and \<open>pos_y\<close> are C floats. The functions modelled here compare them,
  clamp them, round them with \<open>std::lround\<close> and assign 16-bit integers to them; each
  of these operations is exact on a finite float, so a position is the rational number the
  float denotes. The same holds for the mickeys per pixel, a 16-bit integer divided by 8.
  Only the mickey update computes with floats in a way that rounds; its arithmetic is
  modelled with the rounding written out (\<open>to_float\<close>).
\<close>

type_synonym uint8 = "8 word"
type_synonym uint16 = "16 word"

subsection \<open>Common helper routines\<close>

definition to_int16 :: "int \<Rightarrow> int" where
  \<comment> \<open>\<open>static_cast<int16_t>\<close> of an integer\<close>
  "to_int16 x = (x + 32768) mod 65536 - 32768"

definition to_uint16 :: "int \<Rightarrow> uint16" where
  \<comment> \<open>\<open>static_cast<uint16_t>\<close> of an integer\<close>
  "to_uint16 x = word_of_int x"

definition signed_to_reg8 :: "int \<Rightarrow> uint8" where
  "signed_to_reg8 x = (if x \<ge> 0 then word_of_int x else word_of_int (0x100 + x))"

definition signed_to_reg16 :: "int \<Rightarrow> uint16" where
  "signed_to_reg16 x = (if x \<ge> 0 then word_of_int x else word_of_int (0x10000 + x))"

definition reg_to_signed16 :: "uint16 \<Rightarrow> int" where
  "reg_to_signed16 x = (if bit x 15 then to_int16 (uint x - 0x10000) else to_int16 (uint x))"

definition lround :: "rat \<Rightarrow> int" where
  \<comment> \<open>\<open>std::lround\<close>: to the nearest integer, halfway cases away from zero\<close>
  "lround x = (if 0 \<le> x then \<lfloor>x + 1 / 2\<rfloor> else - \<lfloor>- x + 1 / 2\<rfloor>)"

definition clamp_float :: "rat \<Rightarrow> rat \<Rightarrow> rat \<Rightarrow> rat" where
  \<comment> \<open>\<open>std::clamp(v, lo, hi)\<close>\<close>
  "clamp_float v lo hi = (if v < lo then lo else if hi < v then hi else v)"


subsection \<open>Single-precision arithmetic\<close>

text \<open>
  The mickey update adds, subtracts and multiplies C floats, and these operations round.
  A finite float is again the rational number it denotes, and an operation on floats
  returns its exact result rounded by \<open>to_float\<close>: to the nearest number with a
  significand of 24 bits and an exponent of its least bit not below -149 (IEEE 754
  binary32), halfway cases to the even significand. A result beyond the range of float
  is not modelled as an infinity: \<open>update\<close> below stops at such a value, since
  \<open>std::lround\<close> is undefined there.
\<close>

function bitlen :: "int \<Rightarrow> int" where
  "bitlen n = (if n \<le> 0 then 0 else 1 + bitlen (n div 2))"
  by pat_completeness auto
termination
  by (relation "measure nat") auto

declare bitlen.simps [simp del]

definition pow2 :: "int \<Rightarrow> rat" where
  "pow2 p = (if 0 \<le> p then 2 ^ nat p else 1 / 2 ^ nat (- p))"

definition float_exponent :: "rat \<Rightarrow> int" where
  \<comment> \<open>the \<open>e\<close> with \<open>2 ^ e \<le> \<bar>x\<bar> < 2 ^ (e + 1)\<close>, for \<open>x\<close> other than 0\<close>
  "float_exponent x =
     (if 1 \<le> \<bar>x\<bar> then bitlen \<lfloor>\<bar>x\<bar>\<rfloor> - 1 else - bitlen (\<lceil>1 / \<bar>x\<bar>\<rceil> - 1))"

definition round_half_even :: "rat \<Rightarrow> int" where
  "round_half_even q =
     (let n = \<lfloor>q\<rfloor>; f = q - of_int n
      in if f < 1 / 2 then n else if 1 / 2 < f then n + 1 else if even n then n else n + 1)"

definition to_float :: "rat \<Rightarrow> rat" where
  "to_float x =
     (if x = 0 then 0
      else let p = max (float_exponent x - 23) (- 149)
           in of_int (round_half_even (x / pow2 p)) * pow2 p)"

datatype MouseCursor = Software | Hardware | Text

subsection \<open>Driver data\<close>

record mouse =
  \<comment> \<open>hardware state\<close>
  buttons :: uint8
  pos_x :: rat
  pos_y :: rat
  counter_w :: int
  rate_is_set :: bool
  rate_hz :: uint16
  min_rate_hz :: uint16
  \<comment> \<open>\<open>pending\<close>\<close>
  pending_x_rel :: rat
  pending_y_rel :: rat
  pending_w_rel :: int
  \<comment> \<open>\<open>state\<close>\<close>
  enabled :: bool
  wheel_api :: bool
  times_pressed :: "nat \<Rightarrow> uint16"
  times_released :: "nat \<Rightarrow> uint16"
  last_released_x :: "nat \<Rightarrow> uint16"
  last_released_y :: "nat \<Rightarrow> uint16"
  last_pressed_x :: "nat \<Rightarrow> uint16"
  last_pressed_y :: "nat \<Rightarrow> uint16"
  last_wheel_moved_x :: uint16
  last_wheel_moved_y :: uint16
  mickey_counter_x :: int
  mickey_counter_y :: int
  mickey_delta_x :: rat
  mickey_delta_y :: rat
  mickeys_per_pixel_x :: rat
  mickeys_per_pixel_y :: rat
  double_speed_threshold :: uint16
  granularity_x :: uint16
  granularity_y :: uint16
  update_region_x :: "nat \<Rightarrow> int"
  update_region_y :: "nat \<Rightarrow> int"
  mode :: uint8
  minpos_x :: int
  maxpos_x :: int
  minpos_y :: int
  maxpos_y :: int
  page :: uint8
  inhibit_draw :: bool
  hidden :: uint16
  oldhidden :: uint16
  clipx :: int
  clipy :: int
  hot_x :: int
  hot_y :: int
  background_enabled :: bool
  background_pos_x :: uint16
  background_pos_y :: uint16
  cursor_type :: MouseCursor
  text_and_mask :: uint16
  text_xor_mask :: uint16
  user_screen_mask :: bool
  user_cursor_mask :: bool
  user_callback_mask :: uint16
  user_callback_segment :: uint16
  user_callback_offset :: uint16
  \<comment> \<open>\<open>mouse_shared\<close>\<close>
  active_dos :: bool
  dos_cb_running :: bool

text \<open>
  The arrays of \<open>state\<close> are functions from the index. The members that only feed the
  screen or guest memory (\<open>background.data\<close>, the user-defined masks), the sensitivity
  members and \<open>language\<close> are read by none of the functions below and are left out,
  as are the calls that only write to a collaborator (the log, the PIC, the rate and
  state notifications, \<open>WriteChar\<close>, \<open>INT10_PutPixel\<close>, the VGA registers).
\<close>

text \<open>The CPU registers the handler reads and writes.\<close>

record regs =
  reg_ax :: uint16
  reg_bx :: uint16
  reg_cx :: uint16
  reg_dx :: uint16
  reg_si :: uint16
  reg_di :: uint16
  seg_es :: uint16



definition set_reg_bl :: "uint8 \<Rightarrow> regs \<Rightarrow> regs" where
  "set_reg_bl v r = r\<lparr>reg_bx := (reg_bx r AND 0xff00) OR ucast v\<rparr>"

definition set_reg_bh :: "uint8 \<Rightarrow> regs \<Rightarrow> regs" where
  "set_reg_bh v r = r\<lparr>reg_bx := (reg_bx r AND 0x00ff) OR push_bit 8 (ucast v)\<rparr>"

text \<open>
  What the handler reads from its collaborators: the current video mode
  (\<open>CurMode\<close>), the BIOS data area, the configuration and guest memory.
\<close>

record env =
  CurMode_is_text :: bool      \<comment> \<open>\<open>CurMode->type == M_TEXT\<close>\<close>
  CurMode_swidth :: nat
  CurMode_sheight :: nat
  bios_video_mode :: uint8     \<comment> \<open>\<open>mem_readb(BIOS_VIDEO_MODE)\<close>\<close>
  bios_nb_rows :: uint8        \<comment> \<open>\<open>real_readb(BIOSMEM_SEG, BIOSMEM_NB_ROWS)\<close>\<close>
  is_egavga_arch :: bool       \<comment> \<open>\<open>IS_EGAVGA_ARCH\<close>\<close>
  dos_immediate :: bool        \<comment> \<open>\<open>mouse_config.dos_immediate\<close>\<close>
  state_block :: mouse         \<comment> \<open>what \<open>MEM_BlockRead\<close> finds at ES:DX in function 0x17,
                                   as the values of the members of \<open>state\<close>\<close>

definition num_buttons :: nat where
  "num_buttons = 3"

definition get_pos_x :: "mouse \<Rightarrow> uint16" where
  "get_pos_x s = to_uint16 (lround (pos_x s)) AND granularity_x s"

definition get_pos_y :: "mouse \<Rightarrow> uint16" where
  "get_pos_y s = to_uint16 (lround (pos_y s)) AND granularity_y s"

subsection \<open>Wheel counter\<close>

definition get_reset_wheel_8bit :: "mouse \<Rightarrow> uint8 \<times> mouse" where
  "get_reset_wheel_8bit s =
     (if \<not> wheel_api s then (0, s)
      else (signed_to_reg8 (counter_w s), s\<lparr>counter_w := 0\<rparr>))"

definition get_reset_wheel_16bit :: "mouse \<Rightarrow> uint16 \<times> mouse" where
  "get_reset_wheel_16bit s =
     (if \<not> wheel_api s then (0, s)
      else (signed_to_reg16 (counter_w s), s\<lparr>counter_w := 0\<rparr>))"





subsection \<open>Cursor drawing\<close>

definition restore_cursor_background_text :: "mouse \<Rightarrow> mouse" where
  "restore_cursor_background_text s =
     (if hidden s \<noteq> 0 \<or> inhibit_draw s then s
      else if background_enabled s then s\<lparr>background_enabled := False\<rparr>
      else s)"

definition draw_cursor_text :: "mouse \<Rightarrow> mouse" where
  "draw_cursor_text s =
     (let s1 = restore_cursor_background_text s;
          x = get_pos_x s1;
          y = get_pos_y s1
      in if uint y \<le> update_region_y s1 1 \<and> uint y \<ge> update_region_y s1 0 \<and>
            uint x \<le> update_region_x s1 1 \<and> uint x \<ge> update_region_x s1 0
         then s1
         else
           let s2 = s1\<lparr>background_pos_x := to_uint16 (uint x div 8)\<rparr>;
               s3 = s2\<lparr>background_pos_y := to_uint16 (uint y div 8)\<rparr>;
               s4 = (if mode s3 < 2 then s3\<lparr>background_pos_x := background_pos_x s3 div 2\<rparr>
                     else s3)
           in if cursor_type s4 = Software then s4\<lparr>background_enabled := True\<rparr>
              else s4)"

definition restore_cursor_background :: "mouse \<Rightarrow> mouse" where
  "restore_cursor_background s =
     (if hidden s \<noteq> 0 \<or> inhibit_draw s \<or> \<not> background_enabled s then s
      else s\<lparr>background_enabled := False\<rparr>)"

definition MOUSEDOS_DrawCursor :: "env \<Rightarrow> mouse \<Rightarrow> mouse" where
  "MOUSEDOS_DrawCursor e s =
     (if hidden s \<noteq> 0 \<or> inhibit_draw s then s
      else if CurMode_is_text e then draw_cursor_text s
      else
        let s1 = s\<lparr>clipx := to_int16 (int (CurMode_swidth e) - 1)\<rparr>;
            s2 = s1\<lparr>clipy := to_int16 (int (CurMode_sheight e) - 1)\<rparr>;
            xratio0 = (if CurMode_swidth e > 0 then to_int16 (640 div int (CurMode_swidth e))
                       else 640);
            xratio = (if xratio0 = 0 then 1 else xratio0);
            s3 = restore_cursor_background s2;
            s4 = s3\<lparr>background_enabled := True\<rparr>;
            s5 = s4\<lparr>background_pos_x :=
                      to_uint16 (uint (get_pos_x s4) div xratio - hot_x s4)\<rparr>;
            s6 = s5\<lparr>background_pos_y := to_uint16 (uint (get_pos_y s5) - hot_y s5)\<rparr>
        in s6)"

subsection \<open>Settings and reset\<close>

definition update_driver_active :: "mouse \<Rightarrow> mouse" where
  "update_driver_active s = s\<lparr>active_dos := (user_callback_mask s \<noteq> 0)\<rparr>"

definition set_mickey_pixel_rate :: "int \<Rightarrow> int \<Rightarrow> mouse \<Rightarrow> mouse" where
  "set_mickey_pixel_rate ratio_x ratio_y s =
     (if ratio_x > 0 \<and> ratio_y > 0
      then s\<lparr>mickeys_per_pixel_x := of_int ratio_x / 8,
             mickeys_per_pixel_y := of_int ratio_y / 8\<rparr>
      else s)"

definition set_double_speed_threshold :: "uint16 \<Rightarrow> mouse \<Rightarrow> mouse" where
  "set_double_speed_threshold threshold s =
     (if threshold \<noteq> 0 then s\<lparr>double_speed_threshold := threshold\<rparr>
      else s\<lparr>double_speed_threshold := 64\<rparr>)"

definition reset_hardware :: "mouse \<Rightarrow> mouse" where
  "reset_hardware s = s\<lparr>wheel_api := False, counter_w := 0, rate_is_set := False\<rparr>"

definition MOUSEDOS_BeforeNewVideoMode :: "env \<Rightarrow> mouse \<Rightarrow> mouse" where
  "MOUSEDOS_BeforeNewVideoMode e s =
     (let s1 = (if \<not> CurMode_is_text e then restore_cursor_background s
                else restore_cursor_background_text s)
      in s1\<lparr>hidden := 1, oldhidden := 1, background_enabled := False\<rparr>)"

definition default_text_and_mask :: uint16 where
  "default_text_and_mask = 0x77FF"

definition default_text_xor_mask :: uint16 where
  "default_text_xor_mask = 0x7700"

definition new_video_mode_defaults :: "uint8 \<Rightarrow> mouse \<Rightarrow> mouse" where
  \<comment> \<open>the assignments of \<open>MOUSEDOS_AfterNewVideoMode\<close> that follow its \<open>switch\<close>\<close>
  "new_video_mode_defaults m s =
     s\<lparr>mode := m, maxpos_x := 639, minpos_x := 0, minpos_y := 0, hot_x := 0, hot_y := 0,
       user_screen_mask := False, user_cursor_mask := False,
       text_and_mask := default_text_and_mask, text_xor_mask := default_text_xor_mask,
       page := 0, update_region_y := (update_region_y s)(1 := - 1),
       cursor_type := Software, enabled := True\<rparr>"

definition MOUSEDOS_AfterNewVideoMode :: "env \<Rightarrow> bool \<Rightarrow> mouse \<Rightarrow> mouse" where
  "MOUSEDOS_AfterNewVideoMode e setmode s =
     (let s1 = s\<lparr>inhibit_draw := False\<rparr>;
          m = bios_video_mode e;
          s2 = s1\<lparr>granularity_x := 0xffff, granularity_y := 0xffff\<rparr>
      in if m \<in> {0x00, 0x01, 0x02, 0x03, 0x07} then
           let s3 = s2\<lparr>granularity_x := (if m < 2 then 0xfff0 else 0xfff8)\<rparr>;
               s4 = s3\<lparr>granularity_y := 0xfff8\<rparr>;
               rows0 = (if is_egavga_arch e then unat (bios_nb_rows e) else 24);
               rows = (if rows0 = 0 \<or> rows0 > 250 then 24 else rows0)
           in new_video_mode_defaults m (s4\<lparr>maxpos_y := to_int16 (8 * (int rows + 1) - 1)\<rparr>)
         else if m \<in> {0x04, 0x05, 0x06, 0x08, 0x09, 0x0a, 0x0d, 0x0e, 0x13} then
           let s3 = (if m = 0x0d \<or> m = 0x13 then s2\<lparr>granularity_x := 0xfffe\<rparr> else s2)
           in new_video_mode_defaults m (s3\<lparr>maxpos_y := 199\<rparr>)
         else if m \<in> {0x0f, 0x10} then new_video_mode_defaults m (s2\<lparr>maxpos_y := 349\<rparr>)
         else if m \<in> {0x11, 0x12} then new_video_mode_defaults m (s2\<lparr>maxpos_y := 479\<rparr>)
         else s2\<lparr>inhibit_draw := True\<rparr>)"

definition c_div :: "int \<Rightarrow> int \<Rightarrow> int" where
  \<comment> \<open>the \<open>/\<close> of C on integers truncates towards zero\<close>
  "c_div a b = sgn a * sgn b * (\<bar>a\<bar> div \<bar>b\<bar>)"

definition reset :: "env \<Rightarrow> mouse \<Rightarrow> mouse" where
  "reset e s =
     (let s1 = s\<lparr>counter_w := 0\<rparr>;
          s2 = s1\<lparr>pending_x_rel := 0, pending_y_rel := 0, pending_w_rel := 0\<rparr>;
          s3 = MOUSEDOS_BeforeNewVideoMode e s2;
          s4 = MOUSEDOS_AfterNewVideoMode e False s3;
          s5 = set_mickey_pixel_rate 8 16 s4;
          s6 = set_double_speed_threshold 0 s5;
          s7 = s6\<lparr>enabled := True\<rparr>;
          s8 = s7\<lparr>pos_x := of_int (c_div (maxpos_x s7 + 1) 2)\<rparr>;
          s9 = s8\<lparr>pos_y := of_int (c_div (maxpos_y s8 + 1) 2)\<rparr>;
          s10 = s9\<lparr>mickey_counter_x := 0, mickey_counter_y := 0,
                   mickey_delta_x := 0, mickey_delta_y := 0,
                   last_wheel_moved_x := 0, last_wheel_moved_y := 0\<rparr>;
          s11 = s10\<lparr>times_pressed := (times_pressed s10)(0 := 0, 1 := 0, 2 := 0),
                    times_released := (times_released s10)(0 := 0, 1 := 0, 2 := 0),
                    last_pressed_x := (last_pressed_x s10)(0 := 0, 1 := 0, 2 := 0),
                    last_pressed_y := (last_pressed_y s10)(0 := 0, 1 := 0, 2 := 0),
                    last_released_x := (last_released_x s10)(0 := 0, 1 := 0, 2 := 0),
                    last_released_y := (last_released_y s10)(0 := 0, 1 := 0, 2 := 0)\<rparr>;
          s12 = s11\<lparr>user_callback_mask := 0, dos_cb_running := False\<rparr>
      in update_driver_active s12)"

definition limit_coordinates :: "mouse \<Rightarrow> mouse" where
  "limit_coordinates s =
     (let s1 = s\<lparr>pos_x := clamp_float (pos_x s) (of_int (minpos_x s)) (of_int (maxpos_x s))\<rparr>
      in s1\<lparr>pos_y := clamp_float (pos_y s1) (of_int (minpos_y s1)) (of_int (maxpos_y s1))\<rparr>)"

subsection \<open>Mickey counters\<close>



subsection \<open>The INT 33h handler\<close>

text \<open>
  Each \<open>case\<close> of \<open>int33_handler\<close> is a function from the registers and the driver
  data to the new registers and driver data, named after its function code.
\<close>

definition int33_21 :: "env \<Rightarrow> regs \<times> mouse \<Rightarrow> regs \<times> mouse" where
  \<comment> \<open>software reset\<close>
  "int33_21 e = (\<lambda>(r, s). (r\<lparr>reg_ax := 0xffff, reg_bx := 3\<rparr>, reset e s))"

definition int33_00 :: "env \<Rightarrow> regs \<times> mouse \<Rightarrow> regs \<times> mouse" where
  \<comment> \<open>reset driver and read status: \<open>reset_hardware()\<close>, then falls through to 0x21\<close>
  "int33_00 e = (\<lambda>(r, s). int33_21 e (r, reset_hardware s))"

definition int33_01 :: "env \<Rightarrow> regs \<times> mouse \<Rightarrow> regs \<times> mouse" where
  \<comment> \<open>show mouse cursor\<close>
  "int33_01 e = (\<lambda>(r, s).
     let s1 = (if hidden s \<noteq> 0 then s\<lparr>hidden := hidden s - 1\<rparr> else s);
         s2 = s1\<lparr>update_region_y := (update_region_y s1)(1 := - 1)\<rparr>
     in (r, MOUSEDOS_DrawCursor e s2))"

definition int33_02 :: "env \<Rightarrow> regs \<times> mouse \<Rightarrow> regs \<times> mouse" where
  \<comment> \<open>hide mouse cursor\<close>
  "int33_02 e = (\<lambda>(r, s).
     let s1 = (if \<not> CurMode_is_text e then restore_cursor_background s
               else restore_cursor_background_text s)
     in (r, s1\<lparr>hidden := hidden s1 + 1\<rparr>))"

definition int33_03 :: "regs \<times> mouse \<Rightarrow> regs \<times> mouse" where
  \<comment> \<open>get position and button status\<close>
  "int33_03 = (\<lambda>(r, s).
     let r1 = set_reg_bl (buttons s) r;
         (w, s1) = get_reset_wheel_8bit s;
         r2 = set_reg_bh w r1;
         r3 = r2\<lparr>reg_cx := get_pos_x s1\<rparr>;
         r4 = r3\<lparr>reg_dx := get_pos_y s1\<rparr>
     in (r4, s1))"

definition int33_04 :: "env \<Rightarrow> regs \<times> mouse \<Rightarrow> regs \<times> mouse" where
  \<comment> \<open>position mouse cursor\<close>
  "int33_04 e = (\<lambda>(r, s).
     let s1 = (if reg_to_signed16 (reg_cx r) \<noteq> uint (get_pos_x s)
               then s\<lparr>pos_x := of_int (uint (reg_cx r))\<rparr> else s);
         s2 = (if reg_to_signed16 (reg_dx r) \<noteq> uint (get_pos_y s1)
               then s1\<lparr>pos_y := of_int (uint (reg_dx r))\<rparr> else s1)
     in (r, MOUSEDOS_DrawCursor e (limit_coordinates s2)))"

definition int33_05 :: "regs \<times> mouse \<Rightarrow> regs \<times> mouse" where
  \<comment> \<open>get button press / wheel data\<close>
  "int33_05 = (\<lambda>(r, s).
     let idx = reg_bx r
     in if idx = 0xffff \<and> wheel_api s then
          let (w, s1) = get_reset_wheel_16bit s
          in (r\<lparr>reg_bx := w, reg_cx := last_wheel_moved_x s1,
                reg_dx := last_wheel_moved_y s1\<rparr>, s1)
        else if unat idx < num_buttons then
          (r\<lparr>reg_ax := ucast (buttons s), reg_bx := times_pressed s (unat idx),
             reg_cx := last_pressed_x s (unat idx), reg_dx := last_pressed_y s (unat idx)\<rparr>,
           s\<lparr>times_pressed := (times_pressed s)(unat idx := 0)\<rparr>)
        else
          (r\<lparr>reg_ax := ucast (buttons s), reg_bx := 0, reg_cx := 0, reg_dx := 0\<rparr>, s))"

definition int33_06 :: "regs \<times> mouse \<Rightarrow> regs \<times> mouse" where
  \<comment> \<open>get button release data / mouse wheel data\<close>
  "int33_06 = (\<lambda>(r, s).
     let idx = reg_bx r
     in if idx = 0xffff \<and> wheel_api s then
          let (w, s1) = get_reset_wheel_16bit s
          in (r\<lparr>reg_bx := w, reg_cx := last_wheel_moved_x s1,
                reg_dx := last_wheel_moved_y s1\<rparr>, s1)
        else if unat idx < num_buttons then
          (r\<lparr>reg_ax := ucast (buttons s), reg_bx := times_released s (unat idx),
             reg_cx := last_released_x s (unat idx), reg_dx := last_released_y s (unat idx)\<rparr>,
           s\<lparr>times_released := (times_released s)(unat idx := 0)\<rparr>)
        else
          (r\<lparr>reg_ax := ucast (buttons s), reg_bx := 0, reg_cx := 0, reg_dx := 0\<rparr>, s))"

definition int33_07 :: "regs \<times> mouse \<Rightarrow> regs \<times> mouse" where
  \<comment> \<open>define horizontal cursor range\<close>
  "int33_07 = (\<lambda>(r, s).
     let s1 = s\<lparr>minpos_x := min (reg_to_signed16 (reg_cx r)) (reg_to_signed16 (reg_dx r))\<rparr>;
         s2 = s1\<lparr>maxpos_x := max (reg_to_signed16 (reg_cx r)) (reg_to_signed16 (reg_dx r))\<rparr>
     in (r, s2\<lparr>pos_x := clamp_float (pos_x s2) (of_int (minpos_x s2)) (of_int (maxpos_x s2))\<rparr>))"

definition int33_08 :: "regs \<times> mouse \<Rightarrow> regs \<times> mouse" where
  \<comment> \<open>define vertical cursor range\<close>
  "int33_08 = (\<lambda>(r, s).
     let s1 = s\<lparr>minpos_y := min (reg_to_signed16 (reg_cx r)) (reg_to_signed16 (reg_dx r))\<rparr>;
         s2 = s1\<lparr>maxpos_y := max (reg_to_signed16 (reg_cx r)) (reg_to_signed16 (reg_dx r))\<rparr>
     in (r, s2\<lparr>pos_y := clamp_float (pos_y s2) (of_int (minpos_y s2)) (of_int (maxpos_y s2))\<rparr>))"

definition int33_0f :: "regs \<times> mouse \<Rightarrow> regs \<times> mouse" where
  \<comment> \<open>define mickey/pixel rate\<close>
  "int33_0f = (\<lambda>(r, s).
     (r, set_mickey_pixel_rate (reg_to_signed16 (reg_cx r)) (reg_to_signed16 (reg_dx r)) s))"

definition int33_10 :: "env \<Rightarrow> regs \<times> mouse \<Rightarrow> regs \<times> mouse" where
  \<comment> \<open>define screen region for updating\<close>
  "int33_10 e = (\<lambda>(r, s).
     let s1 = s\<lparr>update_region_x := (update_region_x s)(0 := reg_to_signed16 (reg_cx r))\<rparr>;
         s2 = s1\<lparr>update_region_y := (update_region_y s1)(0 := reg_to_signed16 (reg_dx r))\<rparr>;
         s3 = s2\<lparr>update_region_x := (update_region_x s2)(1 := reg_to_signed16 (reg_si r))\<rparr>;
         s4 = s3\<lparr>update_region_y := (update_region_y s3)(1 := reg_to_signed16 (reg_di r))\<rparr>
     in (r, MOUSEDOS_DrawCursor e s4))"

definition int33_11 :: "regs \<times> mouse \<Rightarrow> regs \<times> mouse" where
  \<comment> \<open>WheelAPI: get mouse capabilities\<close>
  "int33_11 = (\<lambda>(r, s).
     (r\<lparr>reg_ax := 0x574d, reg_bx := 0, reg_cx := 1\<rparr>, s\<lparr>wheel_api := True, counter_w := 0\<rparr>))"

definition load_state :: "mouse \<Rightarrow> mouse \<Rightarrow> mouse" where
  \<comment> \<open>\<open>MEM_BlockRead\<close> into \<open>state\<close>: every member of \<open>state\<close> takes its value
      in the block, the other variables keep theirs\<close>
  "load_state block s =
     block\<lparr>buttons := buttons s, pos_x := pos_x s, pos_y := pos_y s, counter_w := counter_w s,
           rate_is_set := rate_is_set s, rate_hz := rate_hz s, min_rate_hz := min_rate_hz s,
           pending_x_rel := pending_x_rel s, pending_y_rel := pending_y_rel s,
           pending_w_rel := pending_w_rel s,
           active_dos := active_dos s, dos_cb_running := dos_cb_running s\<rparr>"

definition int33_17 :: "env \<Rightarrow> regs \<times> mouse \<Rightarrow> regs \<times> mouse" where
  \<comment> \<open>load driver state; the closing \<open>set_sensitivity\<close> writes only to the sensitivity
      members\<close>
  "int33_17 e = (\<lambda>(r, s).
     let s1 = load_state (state_block e) s;
         s2 = s1\<lparr>pending_x_rel := 0, pending_y_rel := 0, pending_w_rel := 0\<rparr>
     in (r, update_driver_active s2))"

text \<open>
  The dispatch on \<open>reg_ax\<close>, for the function codes modelled above; \<open>None\<close> stands for
  a function code that this development does not model.
\<close>

definition int33_handler :: "env \<Rightarrow> regs \<times> mouse \<Rightarrow> (regs \<times> mouse) option" where
  "int33_handler e rs =
     (let ax = reg_ax (fst rs)
      in if ax = 0x00 then Some (int33_00 e rs)
         else if ax = 0x21 then Some (int33_21 e rs)
         else if ax = 0x01 then Some (int33_01 e rs)
         else if ax = 0x02 then Some (int33_02 e rs)
         else if ax = 0x03 then Some (int33_03 rs)
         else if ax = 0x04 then Some (int33_04 e rs)
         else if ax = 0x05 then Some (int33_05 rs)
         else if ax = 0x06 then Some (int33_06 rs)
         else if ax = 0x07 then Some (int33_07 rs)
         else if ax = 0x08 then Some (int33_08 rs)
         else if ax = 0x0f then Some (int33_0f rs)
         else if ax = 0x10 then Some (int33_10 e rs)
         else if ax = 0x11 then Some (int33_11 rs)
         else if ax = 0x17 then Some (int33_17 e rs)
         else None)"

subsection \<open>Driver start\<close>

definition static_init :: mouse where
  \<comment> \<open>the initialisers of the file-scope variables\<close>
  "static_init =
     \<lparr>buttons = 0, pos_x = 0, pos_y = 0, counter_w = 0,
      rate_is_set = False, rate_hz = 0, min_rate_hz = 0,
      pending_x_rel = 0, pending_y_rel = 0, pending_w_rel = 0,
      enabled = False, wheel_api = False,
      times_pressed = (\<lambda>_. 0), times_released = (\<lambda>_. 0),
      last_released_x = (\<lambda>_. 0), last_released_y = (\<lambda>_. 0),
      last_pressed_x = (\<lambda>_. 0), last_pressed_y = (\<lambda>_. 0),
      last_wheel_moved_x = 0, last_wheel_moved_y = 0,
      mickey_counter_x = 0, mickey_counter_y = 0,
      mickey_delta_x = 0, mickey_delta_y = 0,
      mickeys_per_pixel_x = 0, mickeys_per_pixel_y = 0,
      double_speed_threshold = 0, granularity_x = 0, granularity_y = 0,
      update_region_x = (\<lambda>_. 0), update_region_y = (\<lambda>_. 0),
      mode = 0, minpos_x = 0, maxpos_x = 0, minpos_y = 0, maxpos_y = 0,
      page = 0, inhibit_draw = False, hidden = 0, oldhidden = 0,
      clipx = 0, clipy = 0, hot_x = 0, hot_y = 0,
      background_enabled = False, background_pos_x = 0, background_pos_y = 0,
      cursor_type = Software, text_and_mask = 0, text_xor_mask = 0,
      user_screen_mask = False, user_cursor_mask = False,
      user_callback_mask = 0, user_callback_segment = 0, user_callback_offset = 0,
      active_dos = False, dos_cb_running = False\<rparr>"

definition MOUSEDOS_Init :: "env \<Rightarrow> mouse" where
  \<comment> \<open>the assignments of \<open>MOUSEDOS_Init\<close> to the driver data, then
      \<open>reset_hardware()\<close> and \<open>reset()\<close>; its \<open>set_sensitivity(50, 50, 50)\<close> writes
      only to the sensitivity members\<close>
  "MOUSEDOS_Init e =
     reset e (reset_hardware
       (static_init\<lparr>user_callback_segment := 0x6362, hidden := 1, mode := 0xff\<rparr>))"

subsection \<open>Example inputs\<close>

definition regs0 :: regs where
  "regs0 = \<lparr>reg_ax = 0, reg_bx = 0, reg_cx = 0, reg_dx = 0, reg_si = 0, reg_di = 0,
            seg_es = 0\<rparr>"

definition env_text :: env where
  \<comment> \<open>video mode 3, 80x25 text\<close>
  "env_text = \<lparr>CurMode_is_text = True, CurMode_swidth = 720, CurMode_sheight = 400,
     bios_video_mode = 0x03, bios_nb_rows = 24, is_egavga_arch = True, dos_immediate = False,
     state_block = static_init\<rparr>"

definition env_gfx :: env where
  \<comment> \<open>video mode 12h, 640x480 graphics\<close>
  "env_gfx = \<lparr>CurMode_is_text = False, CurMode_swidth = 640, CurMode_sheight = 480,
     bios_video_mode = 0x12, bios_nb_rows = 29, is_egavga_arch = True, dos_immediate = False,
     state_block = static_init\<rparr>"

definition video_mode_handled :: "uint8 \<Rightarrow> bool" where
  \<comment> \<open>the video modes that the \<open>switch\<close> of \<open>MOUSEDOS_AfterNewVideoMode\<close> lists\<close>
  "video_mode_handled m \<longleftrightarrow>
     m \<in> {0x00, 0x01, 0x02, 0x03, 0x07, 0x04, 0x05, 0x06, 0x08, 0x09, 0x0a, 0x0d, 0x0e, 0x13,
          0x0f, 0x10, 0x11, 0x12}"

subsection \<open>Scenarios\<close>




definition wheel_on :: mouse where
  \<comment> \<open>the driver after its start and a call of function 0x11\<close>
  "wheel_on = snd (int33_11 (regs0, MOUSEDOS_Init env_text))"






definition negative_x :: mouse where
  \<comment> \<open>640x480 graphics: driver start, function 0x07 with the range (-200, -50), then
      function 0x07 with the range (-100, 100)\<close>
  "negative_x =
     snd (int33_07 (regs0\<lparr>reg_cx := 0xFF9C, reg_dx := 100\<rparr>,
       snd (int33_07 (regs0\<lparr>reg_cx := 0xFF38, reg_dx := 0xFFCE\<rparr>, MOUSEDOS_Init env_gfx))))"







text \<open>
  Hard reset in the words of the specification: it clears the wheel extension state and
  the interrupt rate override, then performs the soft reset.
\<close>

definition hardware_teardown_spec :: "mouse \<Rightarrow> mouse" where
  "hardware_teardown_spec s = s\<lparr>wheel_api := False, counter_w := 0, rate_is_set := False\<rparr>"

definition hard_reset_spec :: "env \<Rightarrow> regs \<times> mouse \<Rightarrow> (regs \<times> mouse) option" where
  "hard_reset_spec e =
     (\<lambda>(r, s). int33_handler e (r\<lparr>reg_ax := 0x21\<rparr>, hardware_teardown_spec s))"

section \<open>Properties\<close>

subsection \<open>Registers and conversions\<close>





lemma bit15_uint: "bit (x::16 word) 15 \<longleftrightarrow> 32768 \<le> uint x"
proof -
  have u: "0 \<le> uint x" "uint x < 65536" using uint_lt2p [of x] by simp_all
  have "bit x 15 \<longleftrightarrow> odd (uint x div 2 ^ 15)"
    using bit_uint_iff [of x 15] by (simp add: bit_iff_odd)
  also have "\<dots> \<longleftrightarrow> 32768 \<le> uint x"
  proof (cases "32768 \<le> uint x")
    case True
    then have "uint x div 32768 = 1" using u by simp
    then show ?thesis using True by simp
  next
    case False
    then have "uint x div 32768 = 0" using u by simp
    then show ?thesis using False by simp
  qed
  finally show ?thesis .
qed

lemma sint16: "sint (x::16 word) = (uint x + 32768) mod 65536 - 32768"
  by (simp add: sint_uint signed_take_bit_eq_take_bit_shift take_bit_eq_mod)

text \<open>\<open>reg_to_signed16\<close> reads a register as a two's complement number.\<close>

lemma reg_to_signed16_sint: "reg_to_signed16 x = sint x"
proof -
  have u: "0 \<le> uint x" "uint x < 65536" using uint_lt2p [of x] by simp_all
  show ?thesis
  proof (cases "32768 \<le> uint x")
    case True
    have "(uint x - 65536 + 32768) mod 65536 = uint x - 32768"
      using True u by simp
    moreover have "(uint x + 32768) mod 65536 = uint x - 32768"
    proof -
      have e: "uint x + 32768 = (uint x - 32768) + 65536" by simp
      have "(uint x - 32768 + 65536) mod 65536 = (uint x - 32768) mod 65536"
        by (rule mod_add_self2)
      also have "\<dots> = uint x - 32768" using True u by simp
      finally show ?thesis by (simp only: e)
    qed
    ultimately show ?thesis
      using True by (simp add: reg_to_signed16_def to_int16_def sint16 bit15_uint)
  next
    case False
    have "(uint x + 32768) mod 65536 = uint x + 32768"
      using False u by simp
    then show ?thesis
      using False by (simp add: reg_to_signed16_def to_int16_def sint16 bit15_uint)
  qed
qed







lemma clamp_float_bounds:
  "lo \<le> hi \<Longrightarrow> lo \<le> clamp_float v lo hi \<and> clamp_float v lo hi \<le> hi"
  by (simp add: clamp_float_def)

subsection \<open>What drawing and reset leave alone\<close>

lemmas draw_defs = MOUSEDOS_DrawCursor_def draw_cursor_text_def restore_cursor_background_def
  restore_cursor_background_text_def get_pos_x_def get_pos_y_def

lemma DrawCursor_hidden: "hidden (MOUSEDOS_DrawCursor e s) = hidden s"
  by (simp add: draw_defs Let_def)

lemma DrawCursor_update_region_y:
  "update_region_y (MOUSEDOS_DrawCursor e s) = update_region_y s"
  by (simp add: draw_defs Let_def)

lemma DrawCursor_pos:
  "pos_x (MOUSEDOS_DrawCursor e s) = pos_x s" "pos_y (MOUSEDOS_DrawCursor e s) = pos_y s"
  by (simp_all add: draw_defs Let_def)

lemmas reset_defs = reset_def MOUSEDOS_BeforeNewVideoMode_def MOUSEDOS_AfterNewVideoMode_def
  new_video_mode_defaults_def set_mickey_pixel_rate_def set_double_speed_threshold_def
  update_driver_active_def restore_cursor_background_def restore_cursor_background_text_def

lemma reset_hidden: "hidden (reset e s) = 1"
  by (simp add: reset_defs Let_def)

lemma reset_keeps:
  "wheel_api (reset e s) = wheel_api s" "rate_is_set (reset e s) = rate_is_set s"
  "counter_w (reset e s) = 0" "pending_w_rel (reset e s) = 0"
  by (simp_all add: reset_defs Let_def)

lemma reset_inhibit_draw:
  "inhibit_draw (reset e s) = (\<not> video_mode_handled (bios_video_mode e))"
  by (simp add: reset_defs Let_def video_mode_handled_def)

lemma DrawCursor_inhibit: "inhibit_draw (MOUSEDOS_DrawCursor e s) = inhibit_draw s"
  by (simp add: draw_defs Let_def)

lemma wheel_on_facts:
  "wheel_api wheel_on" "pending_w_rel wheel_on = 0" "counter_w wheel_on = 0"
  by (simp_all add: wheel_on_def int33_11_def MOUSEDOS_Init_def reset_keeps)

subsection \<open>The wheel counter\<close>













subsection \<open>Function 0x03: position and button status\<close>





subsection \<open>Functions 0x05 and 0x06: an index that is neither a button nor the wheel\<close>

text \<open>
  Claim C10. When the index in BX is not below 3 and is not the wheel index 0xffff with
  the wheel extension enabled, functions 0x05 and 0x06 return the button mask in AX and 0
  in BX, CX and DX, and the driver data is unchanged: no press, release or wheel counter
  is cleared.
\<close>

theorem int33_05_06_unsupported_index:
  assumes "\<not> unat (reg_bx r) < num_buttons" and "\<not> (reg_bx r = 0xffff \<and> wheel_api s)"
  shows "int33_handler e (r\<lparr>reg_ax := 0x05\<rparr>, s) =
           Some (r\<lparr>reg_ax := ucast (buttons s), reg_bx := 0, reg_cx := 0, reg_dx := 0\<rparr>, s)
       \<and> int33_handler e (r\<lparr>reg_ax := 0x06\<rparr>, s) =
           Some (r\<lparr>reg_ax := ucast (buttons s), reg_bx := 0, reg_cx := 0, reg_dx := 0\<rparr>, s)"
  using assms by (auto simp add: int33_handler_def int33_05_def int33_06_def Let_def)

theorem int33_05_06_unsupported_index_witness:
  "int33_handler env_text (regs0\<lparr>reg_bx := 7, reg_ax := 0x05\<rparr>,
      static_init\<lparr>buttons := 5, wheel_api := True, counter_w := 4\<rparr>) =
     Some (regs0\<lparr>reg_bx := 7, reg_ax := 5, reg_bx := 0, reg_cx := 0, reg_dx := 0\<rparr>,
           static_init\<lparr>buttons := 5, wheel_api := True, counter_w := 4\<rparr>)
   \<and> int33_handler env_text (regs0\<lparr>reg_bx := 0xffff, reg_ax := 0x06\<rparr>,
      static_init\<lparr>buttons := 5, counter_w := 4\<rparr>) =
     Some (regs0\<lparr>reg_bx := 0xffff, reg_ax := 5, reg_bx := 0, reg_cx := 0, reg_dx := 0\<rparr>,
           static_init\<lparr>buttons := 5, counter_w := 4\<rparr>)"
  using int33_05_06_unsupported_index
          [of "regs0\<lparr>reg_bx := 7\<rparr>"
              "static_init\<lparr>buttons := 5, wheel_api := True, counter_w := 4\<rparr>" env_text]
        int33_05_06_unsupported_index
          [of "regs0\<lparr>reg_bx := 0xffff\<rparr>" "static_init\<lparr>buttons := 5, counter_w := 4\<rparr>"
              env_text]
  by (simp add: regs0_def static_init_def num_buttons_def)

subsection \<open>Functions 0x07 and 0x08: cursor range\<close>

text \<open>
  Claim C3. For every pair of arguments in CX and DX, read as signed numbers, function
  0x07 stores the lesser as \<open>minpos_x\<close> and the greater as \<open>maxpos_x\<close> and clamps
  \<open>pos_x\<close> into the new range; function 0x08 does the same for the vertical range.
  After the arguments (600, 100) the bounds are 100 and 600, and a position of 700
  becomes 600.
\<close>

theorem define_cursor_range:
  "minpos_x (snd (int33_07 (r, s))) = min (sint (reg_cx r)) (sint (reg_dx r)) \<and>
   maxpos_x (snd (int33_07 (r, s))) = max (sint (reg_cx r)) (sint (reg_dx r)) \<and>
   pos_x (snd (int33_07 (r, s))) =
     clamp_float (pos_x s) (of_int (min (sint (reg_cx r)) (sint (reg_dx r))))
                           (of_int (max (sint (reg_cx r)) (sint (reg_dx r)))) \<and>
   of_int (minpos_x (snd (int33_07 (r, s)))) \<le> pos_x (snd (int33_07 (r, s))) \<and>
   pos_x (snd (int33_07 (r, s))) \<le> of_int (maxpos_x (snd (int33_07 (r, s)))) \<and>
   minpos_y (snd (int33_08 (r, s))) = min (sint (reg_cx r)) (sint (reg_dx r)) \<and>
   maxpos_y (snd (int33_08 (r, s))) = max (sint (reg_cx r)) (sint (reg_dx r)) \<and>
   pos_y (snd (int33_08 (r, s))) =
     clamp_float (pos_y s) (of_int (min (sint (reg_cx r)) (sint (reg_dx r))))
                           (of_int (max (sint (reg_cx r)) (sint (reg_dx r)))) \<and>
   of_int (minpos_y (snd (int33_08 (r, s)))) \<le> pos_y (snd (int33_08 (r, s))) \<and>
   pos_y (snd (int33_08 (r, s))) \<le> of_int (maxpos_y (snd (int33_08 (r, s)))) \<and>
   minpos_x (snd (int33_07 (r\<lparr>reg_cx := 600, reg_dx := 100\<rparr>, s\<lparr>pos_x := 700\<rparr>))) = 100 \<and>
   maxpos_x (snd (int33_07 (r\<lparr>reg_cx := 600, reg_dx := 100\<rparr>, s\<lparr>pos_x := 700\<rparr>))) = 600 \<and>
   pos_x (snd (int33_07 (r\<lparr>reg_cx := 600, reg_dx := 100\<rparr>, s\<lparr>pos_x := 700\<rparr>))) = 600"
proof -
  let ?lo = "min (sint (reg_cx r)) (sint (reg_dx r))"
  let ?hi = "max (sint (reg_cx r)) (sint (reg_dx r))"
  have le: "(of_int ?lo :: rat) \<le> of_int ?hi" by (simp add: min_def max_def)
  have x: "snd (int33_07 (r, s)) =
             s\<lparr>minpos_x := ?lo, maxpos_x := ?hi,
               pos_x := clamp_float (pos_x s) (of_int ?lo) (of_int ?hi)\<rparr>"
    by (simp add: int33_07_def reg_to_signed16_sint Let_def)
  have y: "snd (int33_08 (r, s)) =
             s\<lparr>minpos_y := ?lo, maxpos_y := ?hi,
               pos_y := clamp_float (pos_y s) (of_int ?lo) (of_int ?hi)\<rparr>"
    by (simp add: int33_08_def reg_to_signed16_sint Let_def)
  have ex: "snd (int33_07 (r\<lparr>reg_cx := 600, reg_dx := 100\<rparr>, s\<lparr>pos_x := 700\<rparr>)) =
             s\<lparr>pos_x := 600, minpos_x := 100, maxpos_x := 600\<rparr>"
    by (simp add: int33_07_def reg_to_signed16_def to_int16_def clamp_float_def Let_def)
  show ?thesis
    using clamp_float_bounds [OF le, of "pos_x s"] clamp_float_bounds [OF le, of "pos_y s"]
    by (simp add: x y ex)
qed

theorem define_cursor_range_witness:
  "minpos_x (snd (int33_07 (regs0\<lparr>reg_cx := 0xFF9C, reg_dx := 100\<rparr>,
      static_init\<lparr>pos_x := 320\<rparr>))) = - 100 \<and>
   maxpos_x (snd (int33_07 (regs0\<lparr>reg_cx := 0xFF9C, reg_dx := 100\<rparr>,
      static_init\<lparr>pos_x := 320\<rparr>))) = 100 \<and>
   pos_x (snd (int33_07 (regs0\<lparr>reg_cx := 0xFF9C, reg_dx := 100\<rparr>,
      static_init\<lparr>pos_x := 320\<rparr>))) = 100 \<and>
   minpos_x (snd (int33_07 (regs0\<lparr>reg_cx := 600, reg_dx := 100\<rparr>,
      static_init\<lparr>pos_x := 700\<rparr>))) = 100 \<and>
   maxpos_x (snd (int33_07 (regs0\<lparr>reg_cx := 600, reg_dx := 100\<rparr>,
      static_init\<lparr>pos_x := 700\<rparr>))) = 600 \<and>
   pos_x (snd (int33_07 (regs0\<lparr>reg_cx := 600, reg_dx := 100\<rparr>,
      static_init\<lparr>pos_x := 700\<rparr>))) = 600"
  using define_cursor_range [of "regs0\<lparr>reg_cx := 0xFF9C, reg_dx := 100\<rparr>"
                                "static_init\<lparr>pos_x := 320\<rparr>"]
        define_cursor_range [of regs0 static_init]
  by (simp add: clamp_float_def)

subsection \<open>Functions 0x01 and 0x02: show and hide\<close>

text \<open>
  Claim C4. After a reset the hidden count is 1. One call of function 0x01 brings it to 0,
  where the cursor is visible: in a video mode that the driver handles, drawing is not
  inhibited either, so \<open>MOUSEDOS_DrawCursor\<close> draws. A second call leaves the count
  at 0, since it is decremented only when it is not 0. Function 0x02 increments the count
  (a \<open>uint16_t\<close>). Function 0x01 also moves the update region off the screen
  (\<open>update_region_y[1] = -1\<close>) and calls \<open>MOUSEDOS_DrawCursor\<close>.
\<close>

theorem show_hide_cursor:
  "hidden (snd (int33_21 e (r, s))) = 1 \<and>
   hidden (snd (int33_01 e (r1, snd (int33_21 e (r, s))))) = 0 \<and>
   hidden (snd (int33_01 e (r2, snd (int33_01 e (r1, snd (int33_21 e (r, s))))))) = 0 \<and>
   (video_mode_handled (bios_video_mode e) \<longrightarrow>
      \<not> inhibit_draw (snd (int33_01 e (r1, snd (int33_21 e (r, s))))) \<and>
      \<not> inhibit_draw (snd (int33_01 e (r2, snd (int33_01 e (r1, snd (int33_21 e (r, s)))))))) \<and>
   hidden (snd (int33_01 e (r, s))) = (if hidden s \<noteq> 0 then hidden s - 1 else 0) \<and>
   hidden (snd (int33_02 e (r, s))) = hidden s + 1 \<and>
   update_region_y (snd (int33_01 e (r, s))) 1 = - 1 \<and>
   snd (int33_01 e (r, s)) =
     MOUSEDOS_DrawCursor e
       ((if hidden s \<noteq> 0 then s\<lparr>hidden := hidden s - 1\<rparr> else s)
          \<lparr>update_region_y := (update_region_y s)(1 := - 1)\<rparr>)"
proof -
  have show_hidden:
    "hidden (snd (int33_01 e (r', s'))) = (if hidden s' \<noteq> 0 then hidden s' - 1 else 0)"
    for r' s'
    by (simp add: int33_01_def Let_def DrawCursor_hidden)
  have a: "hidden (snd (int33_21 e (r, s))) = 1"
    by (simp add: int33_21_def reset_hidden)
  have b: "hidden (snd (int33_01 e (r1, snd (int33_21 e (r, s))))) = 0"
    by (simp add: show_hidden a)
  have c: "hidden (snd (int33_01 e (r2, snd (int33_01 e (r1, snd (int33_21 e (r, s))))))) = 0"
    by (simp add: show_hidden [of r2] b)
  have show_inhibit: "inhibit_draw (snd (int33_01 e (r', s'))) = inhibit_draw s'" for r' s'
    by (simp add: int33_01_def Let_def DrawCursor_inhibit)
  have v: "video_mode_handled (bios_video_mode e) \<longrightarrow>
      \<not> inhibit_draw (snd (int33_01 e (r1, snd (int33_21 e (r, s))))) \<and>
      \<not> inhibit_draw (snd (int33_01 e (r2, snd (int33_01 e (r1, snd (int33_21 e (r, s)))))))"
    by (simp add: show_inhibit int33_21_def reset_inhibit_draw)
  have d: "hidden (snd (int33_02 e (r, s))) = hidden s + 1"
    by (simp add: int33_02_def Let_def restore_cursor_background_def
          restore_cursor_background_text_def)
  have f: "update_region_y (snd (int33_01 e (r, s))) 1 = - 1"
    by (simp add: int33_01_def Let_def DrawCursor_update_region_y)
  have g: "snd (int33_01 e (r, s)) =
     MOUSEDOS_DrawCursor e
       ((if hidden s \<noteq> 0 then s\<lparr>hidden := hidden s - 1\<rparr> else s)
          \<lparr>update_region_y := (update_region_y s)(1 := - 1)\<rparr>)"
    by (simp add: int33_01_def Let_def)
  from a b c v show_hidden [of r s] d f g show ?thesis by (intro conjI) assumption+
qed

theorem show_hide_cursor_witness:
  "hidden (snd (int33_21 env_text (regs0, static_init))) = 1 \<and>
   hidden (snd (int33_01 env_text (regs0, snd (int33_21 env_text (regs0, static_init))))) = 0 \<and>
   hidden (snd (int33_01 env_text (regs0,
     snd (int33_01 env_text (regs0, snd (int33_21 env_text (regs0, static_init))))))) = 0 \<and>
   \<not> inhibit_draw
     (snd (int33_01 env_text (regs0, snd (int33_21 env_text (regs0, static_init))))) \<and>
   hidden (snd (int33_02 env_text (regs0, static_init\<lparr>hidden := 2\<rparr>))) = 3 \<and>
   update_region_y (snd (int33_01 env_text (regs0, static_init))) 1 = - 1"
proof -
  note t = show_hide_cursor [of env_text regs0 static_init regs0 regs0]
  note u = show_hide_cursor [of env_text regs0 "static_init\<lparr>hidden := 2\<rparr>" regs0 regs0]
  have m: "video_mode_handled (bios_video_mode env_text)"
    by (simp add: video_mode_handled_def env_text_def)
  show ?thesis
    using t [THEN conjunct1] t [THEN conjunct2, THEN conjunct1]
      t [THEN conjunct2, THEN conjunct2, THEN conjunct1]
      t [THEN conjunct2, THEN conjunct2, THEN conjunct2, THEN conjunct1] m
      u [THEN conjunct2, THEN conjunct2, THEN conjunct2, THEN conjunct2, THEN conjunct2,
         THEN conjunct1]
      t [THEN conjunct2, THEN conjunct2, THEN conjunct2, THEN conjunct2, THEN conjunct2,
         THEN conjunct2, THEN conjunct1]
    by simp
qed

subsection \<open>Functions 0x00 and 0x21: hard and soft reset\<close>

text \<open>
  Claim C8. Function 0x00 does what the specification's hard reset does: the hardware
  teardown (the wheel extension flag cleared, the wheel counter zeroed, the rate override
  cleared), then function 0x21 on the result. It returns AX = 0xffff and BX = 3, as
  function 0x21 does. After it the wheel extension is off, the wheel counter is 0 and no
  rate override is set, whereas function 0x21 alone keeps the wheel extension flag and
  the rate override.
\<close>

theorem hard_reset_is_teardown_then_soft_reset:
  "int33_handler e (r\<lparr>reg_ax := 0x00\<rparr>, s) = hard_reset_spec e (r, s) \<and>
   int33_handler e (r\<lparr>reg_ax := 0x00\<rparr>, s) =
     Some (r\<lparr>reg_ax := 0xffff, reg_bx := 3\<rparr>, reset e (hardware_teardown_spec s)) \<and>
   int33_handler e (r\<lparr>reg_ax := 0x21\<rparr>, s) =
     Some (r\<lparr>reg_ax := 0xffff, reg_bx := 3\<rparr>, reset e s) \<and>
   \<not> wheel_api (reset e (hardware_teardown_spec s)) \<and>
   counter_w (reset e (hardware_teardown_spec s)) = 0 \<and>
   \<not> rate_is_set (reset e (hardware_teardown_spec s)) \<and>
   wheel_api (reset e s) = wheel_api s \<and>
   rate_is_set (reset e s) = rate_is_set s"
  by (simp add: int33_handler_def hard_reset_spec_def int33_00_def int33_21_def
        hardware_teardown_spec_def reset_hardware_def reset_keeps)

theorem hard_reset_is_teardown_then_soft_reset_witness:
  "int33_handler env_text
     (regs0\<lparr>reg_ax := 0x00\<rparr>, wheel_on\<lparr>counter_w := 9, rate_is_set := True\<rparr>) =
     hard_reset_spec env_text (regs0, wheel_on\<lparr>counter_w := 9, rate_is_set := True\<rparr>) \<and>
   int33_handler env_text
     (regs0\<lparr>reg_ax := 0x00\<rparr>, wheel_on\<lparr>counter_w := 9, rate_is_set := True\<rparr>) =
     Some (regs0\<lparr>reg_ax := 0xffff, reg_bx := 3\<rparr>,
           reset env_text
             (hardware_teardown_spec (wheel_on\<lparr>counter_w := 9, rate_is_set := True\<rparr>))) \<and>
   wheel_api (reset env_text (wheel_on\<lparr>counter_w := 9, rate_is_set := True\<rparr>)) \<and>
   rate_is_set (reset env_text (wheel_on\<lparr>counter_w := 9, rate_is_set := True\<rparr>))"
proof -
  note t = hard_reset_is_teardown_then_soft_reset
             [of env_text regs0 "wheel_on\<lparr>counter_w := 9, rate_is_set := True\<rparr>"]
  have w: "wheel_api (reset env_text (wheel_on\<lparr>counter_w := 9, rate_is_set := True\<rparr>))"
          "rate_is_set (reset env_text (wheel_on\<lparr>counter_w := 9, rate_is_set := True\<rparr>))"
    using t by (simp_all add: wheel_on_facts)
  show ?thesis
    using t [THEN conjunct1] t [THEN conjunct2, THEN conjunct1] w
    by (intro conjI) assumption+
qed

subsection \<open>Evaluating the example states\<close>

lemma lround_of_int: "lround (of_int n) = n"
proof -
  have "\<lfloor>(of_int n :: rat) + 1 / 2\<rfloor> = n" by (simp add: floor_eq_iff)
  moreover have "\<lfloor>- (of_int n :: rat) + 1 / 2\<rfloor> = - n"
    using floor_eq_iff [of "of_int (- n) + 1 / (2::rat)" "- n"] by simp
  ultimately show ?thesis by (simp add: lround_def)
qed

lemma lround_numeral: "lround (numeral n) = numeral n" "lround (- numeral n) = - numeral n"
  using lround_of_int [of "numeral n"] lround_of_int [of "- numeral n"] by simp_all

lemma Init_gfx:
  "pos_x (MOUSEDOS_Init env_gfx) = 320" "pos_y (MOUSEDOS_Init env_gfx) = 240"
  "granularity_x (MOUSEDOS_Init env_gfx) = 0xffff" "granularity_y (MOUSEDOS_Init env_gfx) = 0xffff"
  "hidden (MOUSEDOS_Init env_gfx) = 1" "\<not> inhibit_draw (MOUSEDOS_Init env_gfx)"
  "\<not> background_enabled (MOUSEDOS_Init env_gfx)"
  "minpos_y (MOUSEDOS_Init env_gfx) = 0" "maxpos_y (MOUSEDOS_Init env_gfx) = 479"
  by (simp_all add: MOUSEDOS_Init_def reset_defs reset_hardware_def static_init_def env_gfx_def
        c_div_def to_int16_def Let_def)

lemma and_ffff: "(x::16 word) AND 0xffff = x"
proof -
  have h: "(0xffff::16 word) = - 1" by simp
  show ?thesis unfolding h by simp
qed



subsection \<open>The update region\<close>














subsection \<open>Function 0x04: position mouse cursor\<close>

lemma negative_x_facts:
  "pos_x negative_x = - 50" "pos_y negative_x = 240"
  "minpos_x negative_x = - 100" "maxpos_x negative_x = 100"
  "minpos_y negative_x = 0" "maxpos_y negative_x = 479"
  "granularity_x negative_x = 0xffff" "granularity_y negative_x = 0xffff"
  by (simp_all add: negative_x_def int33_07_def Let_def Init_gfx reg_to_signed16_def to_int16_def
        clamp_float_def)

lemma negative_x_wheel: "\<not> wheel_api negative_x"
  by (simp add: negative_x_def int33_07_def Let_def MOUSEDOS_Init_def reset_keeps
        reset_hardware_def)

lemma get_pos_counter:
  "get_pos_x (s\<lparr>counter_w := c\<rparr>) = get_pos_x s" "get_pos_y (s\<lparr>counter_w := c\<rparr>) = get_pos_y s"
  by (simp_all add: get_pos_x_def get_pos_y_def)

lemma reg_to_signed16_nonneg: "uint x < 32768 \<Longrightarrow> reg_to_signed16 x = uint x"
  by (simp add: reg_to_signed16_def to_int16_def bit15_uint)

text \<open>
  Where the position that function 0x03 returns has bit 15 clear and the position is
  inside the cursor range, writing it back with function 0x04 changes nothing.
\<close>

lemma position_round_trip_nonneg:
  assumes "uint (get_pos_x s) < 32768" and "uint (get_pos_y s) < 32768"
    and "of_int (minpos_x s) \<le> pos_x s" and "pos_x s \<le> of_int (maxpos_x s)"
    and "of_int (minpos_y s) \<le> pos_y s" and "pos_y s \<le> of_int (maxpos_y s)"
  shows "pos_x (snd (int33_04 e (int33_03 (r, s)))) = pos_x s \<and>
         pos_y (snd (int33_04 e (int33_03 (r, s)))) = pos_y s"
proof -
  obtain r' s' where rs: "int33_03 (r, s) = (r', s')" by (cases "int33_03 (r, s)")
  have c: "reg_cx r' = get_pos_x s" "reg_dx r' = get_pos_y s"
    using rs by (auto simp add: int33_03_def get_reset_wheel_8bit_def get_pos_counter
          split: if_splits)
  have s': "s' = s \<or> s' = s\<lparr>counter_w := 0\<rparr>"
    using rs by (auto simp add: int33_03_def get_reset_wheel_8bit_def split: if_splits)
  have g: "get_pos_x s' = get_pos_x s" "get_pos_y s' = get_pos_y s"
    "pos_x s' = pos_x s" "pos_y s' = pos_y s"
    "minpos_x s' = minpos_x s" "maxpos_x s' = maxpos_x s"
    "minpos_y s' = minpos_y s" "maxpos_y s' = maxpos_y s"
    using s' by (auto simp add: get_pos_counter)
  show ?thesis
    using assms
    by (simp add: rs int33_04_def Let_def DrawCursor_pos limit_coordinates_def c g
          reg_to_signed16_nonneg clamp_float_def)
qed

text \<open>
  Claim C6 at a negative position. The horizontal range is (-100, 100) and \<open>pos_x\<close>
  is -50. Function 0x03 returns CX = 0xFFCE, and function 0x04 called with the registers
  that function 0x03 returned moves \<open>pos_x\<close> to 100: the comparison of the signed
  argument with the unsigned position fails, the position is overwritten with 65486 and
  clamped.
\<close>

theorem position_round_trip_negative:
  "pos_x negative_x = - 50 \<and>
   reg_cx (fst (int33_03 (regs0, negative_x))) = 0xFFCE \<and>
   reg_dx (fst (int33_03 (regs0, negative_x))) = 240 \<and>
   pos_x (snd (int33_04 env_gfx (int33_03 (regs0, negative_x)))) = 100 \<and>
   pos_y (snd (int33_04 env_gfx (int33_03 (regs0, negative_x)))) = 240"
proof -
  have gx: "get_pos_x negative_x = 0xFFCE" and gy: "get_pos_y negative_x = 240"
    by (simp_all add: get_pos_x_def get_pos_y_def negative_x_facts lround_numeral to_uint16_def
          and_ffff)
  have r: "int33_03 (regs0, negative_x) =
             (set_reg_bh 0 (set_reg_bl (buttons negative_x) regs0)\<lparr>reg_cx := 0xFFCE, reg_dx := 240\<rparr>,
              negative_x)"
    by (simp add: int33_03_def get_reset_wheel_8bit_def negative_x_wheel gx gy)
  have p: "pos_x (snd (int33_04 env_gfx (int33_03 (regs0, negative_x)))) = 100"
          "pos_y (snd (int33_04 env_gfx (int33_03 (regs0, negative_x)))) = 240"
    by (simp_all add: r int33_04_def Let_def DrawCursor_pos limit_coordinates_def gx gy
          get_pos_y_def
          negative_x_facts reg_to_signed16_def to_int16_def clamp_float_def lround_numeral to_uint16_def and_ffff)
  show ?thesis using negative_x_facts(1) p by (simp add: r)
qed

subsection \<open>The mickey counters\<close>

text \<open>Single-precision rounding at some values: 0.1f, 1/3, halfway cases, exact values.\<close>

lemma to_float_examples:
  "to_float (1 / 10) = 13421773 / 134217728" "to_float (1 / 3) = 11184811 / 33554432"
  "to_float 16777217 = 16777216" "to_float 16777219 = 16777220"
  "to_float (- 16777217) = - 16777216" "to_float 33554433 = 33554432"
  "to_float (1 / 2) = 1 / 2" "to_float (- 3 / 8) = - 3 / 8" "to_float 4194304 = 4194304"
  by code_simp+

lemma to_int16_range: "- 32768 \<le> to_int16 x" "to_int16 x \<le> 32767"
proof -
  have "0 \<le> (x + 32768) mod 65536" "(x + 32768) mod 65536 < 65536" by simp_all
  then show "- 32768 \<le> to_int16 x" "to_int16 x \<le> 32767" by (simp_all add: to_int16_def)
qed




















end
